theory Spec2Isabelle
  imports Main
begin

section \<open>The template router: data model\<close>

text \<open>
  A shallow embedding of \<^verbatim>\<open>plugins/router/template/router.go\<close>.

  A Go map is a reference that may be nil. Reading a nil map finds nothing, \<^verbatim>\<open>delete\<close>
  on a nil map does nothing, and assigning into a nil map panics. A map value is therefore
  an optional finite function: \<open>None\<close> is the nil map, \<open>Some Map.empty\<close> is the map that
  \<^verbatim>\<open>make\<close> returns.
\<close>

type_synonym 'v gomap = "(string \<rightharpoonup> 'v) option"

datatype panic = AssignmentToEntryInNilMap

definition mapIndex :: "'v gomap \<Rightarrow> string \<Rightarrow> 'v option" where
  "mapIndex m k = (case m of None \<Rightarrow> None | Some f \<Rightarrow> f k)"

definition mapAssign :: "'v gomap \<Rightarrow> string \<Rightarrow> 'v \<Rightarrow> panic + 'v gomap" where
  "mapAssign m k v = (case m of None \<Rightarrow> Inl AssignmentToEntryInNilMap | Some f \<Rightarrow> Inr (Some (f(k \<mapsto> v))))"

definition mapDelete :: "'v gomap \<Rightarrow> string \<Rightarrow> 'v gomap" where
  "mapDelete m k = (case m of None \<Rightarrow> None | Some f \<Rightarrow> Some (f(k := None)))"

text \<open>
  Modelled from the spec: the declarations of the types \<^verbatim>\<open>Certificate\<close>, \<^verbatim>\<open>Endpoint\<close>,
  \<^verbatim>\<open>ServiceAliasConfig\<close> and \<^verbatim>\<open>ServiceUnit\<close> (package templaterouter, outside router.go).
  The fields are the ones the data model of the specification lists and router.go reads
  and writes; router.go builds an \<^verbatim>\<open>Endpoint\<close> positionally from \<^verbatim>\<open>ID, IP, Port\<close>, which
  fixes the number and order of its fields. All scalar fields are strings. The field
  \<^verbatim>\<open>ID\<close> of \<^verbatim>\<open>Endpoint\<close> is written \<open>ID_ep\<close>.
\<close>

record Certificate =
  ID :: string
  Contents :: string
  PrivateKey :: string

record Endpoint =
  ID_ep :: string
  IP :: string
  Port :: string

record ServiceAliasConfig =
  Host :: string
  Path :: string
  TLSTermination :: string
  Certificates :: "Certificate gomap"

record ServiceUnit =
  Name :: string
  EndpointTable :: "Endpoint gomap"
  ServiceAliasConfigs :: "ServiceAliasConfig gomap"

text \<open>
  Modelled from the spec: the declarations of \<^verbatim>\<open>routeapi.Route\<close> and \<^verbatim>\<open>routeapi.TLSConfig\<close>
  and the constants \<^verbatim>\<open>routeapi.TLSTerminationEdge\<close>, \<^verbatim>\<open>TLSTerminationPassthrough\<close> and
  \<^verbatim>\<open>TLSTerminationReencrypt\<close> (package pkg/route/api). The fields are those router.go
  reads; the termination is a string type whose values the specification writes \<open>edge\<close>,
  \<open>passthrough\<close> and \<open>reencrypt\<close>, the empty string standing for no termination.
  \<^verbatim>\<open>Route.TLS\<close> is a pointer, \<open>None\<close> when nil; the route itself, also passed by pointer,
  is taken to be there. The fields \<^verbatim>\<open>Name\<close>, \<^verbatim>\<open>Host\<close> and
  \<^verbatim>\<open>Path\<close> of a route and \<^verbatim>\<open>Certificate\<close> of its TLS configuration carry a suffix here.
\<close>

record TLSConfig =
  Termination :: string
  Certificate_tls :: string
  Key :: string
  CACertificate :: string
  DestinationCACertificate :: string

record Route =
  Namespace :: string
  Name_route :: string
  Host_route :: string
  Path_route :: string
  TLS :: "TLSConfig option"

definition TLSTerminationEdge :: string where
  "TLSTerminationEdge = ''edge''"

definition TLSTerminationPassthrough :: string where
  "TLSTerminationPassthrough = ''passthrough''"

definition TLSTerminationReencrypt :: string where
  "TLSTerminationReencrypt = ''reencrypt''"

definition caCertPostfix :: string where
  "caCertPostfix = ''_ca''"

definition destCertPostfix :: string where
  "destCertPostfix = ''_pod''"

text \<open>
  The field \<^verbatim>\<open>state\<close> of the router. \<^verbatim>\<open>newTemplateRouter\<close> and \<^verbatim>\<open>readState\<close> allocate it, so
  it is a proper (non-nil) map from unit id to unit.
\<close>

type_synonym RouterState = "string \<rightharpoonup> ServiceUnit"

section \<open>The mutation API\<close>

text \<open>
  Every operation takes the state and returns the state it leaves. An operation that can
  panic returns, with the state as it is when the operation ends, the panic if there was one.

  The tables of a unit are Go maps, so the copy of a unit that \<^verbatim>\<open>FindServiceUnit\<close> returns
  shares its tables with the unit in the state, and an assignment through the copy is seen
  through the state at once. The operations below store the copy back under the same id
  after the last assignment, no operation stores a table under a second id, and the only
  assignment that panics is the first one into a nil table, before which nothing has
  changed. The value model below, which updates the unit and stores it, therefore leaves
  the same states as the code.
\<close>

definition zeroServiceUnit :: ServiceUnit where
  "zeroServiceUnit = \<lparr>Name = '''', EndpointTable = None, ServiceAliasConfigs = None\<rparr>"

definition CreateServiceUnit :: "RouterState \<Rightarrow> string \<Rightarrow> RouterState" where
  "CreateServiceUnit st sid =
     (let service = \<lparr>Name = sid,
                     EndpointTable = Some Map.empty,
                     ServiceAliasConfigs = Some Map.empty\<rparr>
      in st(sid \<mapsto> service))"

definition FindServiceUnit :: "RouterState \<Rightarrow> string \<Rightarrow> ServiceUnit \<times> bool" where
  "FindServiceUnit st sid = (case st sid of None \<Rightarrow> (zeroServiceUnit, False) | Some v \<Rightarrow> (v, True))"

definition DeleteServiceUnit :: "RouterState \<Rightarrow> string \<Rightarrow> RouterState" where
  "DeleteServiceUnit st sid = st(sid := None)"

definition DeleteEndpoints :: "RouterState \<Rightarrow> string \<Rightarrow> RouterState" where
  "DeleteEndpoints st sid =
     (case FindServiceUnit st sid of (service, ok) \<Rightarrow>
        if \<not> ok then st
        else st(sid \<mapsto> service\<lparr>EndpointTable := Some Map.empty\<rparr>))"

definition routeKey :: "Route \<Rightarrow> string" where
  "routeKey route = Namespace route @ ''-'' @ Name_route route"

text \<open>
  The configuration that \<^verbatim>\<open>AddRoute\<close> builds from the route before it touches the unit
  (the statements from \<^verbatim>\<open>config := ServiceAliasConfig{...}\<close> up to the comment
  \<^verbatim>\<open>//create or replace\<close>). The certificate map is created with \<^verbatim>\<open>make\<close> before the
  first assignment into it, so none of these assignments panics.
\<close>

definition AddRoute_config :: "Route \<Rightarrow> ServiceAliasConfig" where
  "AddRoute_config route =
     (let config = \<lparr>Host = Host_route route, Path = Path_route route,
                    TLSTermination = '''', Certificates = None\<rparr>
      in case TLS route of
           None \<Rightarrow> config
         | Some tls \<Rightarrow>
             if length (Termination tls) > 0 then
               (let config1 = config\<lparr>TLSTermination := Termination tls\<rparr>
                in if Termination tls \<noteq> TLSTerminationPassthrough then
                     (let cert = \<lparr>ID = Host_route route,
                                  Contents = Certificate_tls tls,
                                  PrivateKey = Key tls\<rparr>;
                          certs0 = Map.empty(ID cert \<mapsto> cert);
                          caCert = \<lparr>ID = Host_route route @ caCertPostfix,
                                    Contents = CACertificate tls,
                                    PrivateKey = ''''\<rparr>;
                          certs1 = (if length (CACertificate tls) > 0
                                    then certs0(ID caCert \<mapsto> caCert) else certs0);
                          destCert = \<lparr>ID = Host_route route @ destCertPostfix,
                                      Contents = DestinationCACertificate tls,
                                      PrivateKey = ''''\<rparr>;
                          certs2 = (if length (DestinationCACertificate tls) > 0
                                    then certs1(ID destCert \<mapsto> destCert) else certs1)
                      in config1\<lparr>Certificates := Some certs2\<rparr>)
                   else config1)
             else config)"

definition AddRoute :: "RouterState \<Rightarrow> string \<Rightarrow> Route \<Rightarrow> RouterState \<times> panic option" where
  "AddRoute st sid route =
     (case FindServiceUnit st sid of (frontend, _) \<Rightarrow>
        (let backendKey = routeKey route;
             config = AddRoute_config route
         in case mapAssign (ServiceAliasConfigs frontend) backendKey config of
              Inl p \<Rightarrow> (st, Some p)
            | Inr aliases \<Rightarrow> (st(sid \<mapsto> frontend\<lparr>ServiceAliasConfigs := aliases\<rparr>), None)))"

definition RemoveRoute :: "RouterState \<Rightarrow> string \<Rightarrow> Route \<Rightarrow> RouterState" where
  "RemoveRoute st sid route =
     (case st sid of
        None \<Rightarrow> st
      | Some unit \<Rightarrow>
          st(sid \<mapsto> unit\<lparr>ServiceAliasConfigs := mapDelete (ServiceAliasConfigs unit) (routeKey route)\<rparr>))"

text \<open>
  The loop of \<^verbatim>\<open>AddEndpoints\<close> over the endpoints, on the endpoint table of the unit found:
  an endpoint whose ID the table already has is skipped, any other is assigned.
\<close>

fun AddEndpoints_loop :: "Endpoint gomap \<Rightarrow> Endpoint list \<Rightarrow> panic + Endpoint gomap" where
  "AddEndpoints_loop tbl [] = Inr tbl"
| "AddEndpoints_loop tbl (ep # eps) =
     (case mapIndex tbl (ID_ep ep) of
        Some _ \<Rightarrow> AddEndpoints_loop tbl eps
      | None \<Rightarrow>
          (let newEndpoint = \<lparr>ID_ep = ID_ep ep, IP = IP ep, Port = Port ep\<rparr>
           in case mapAssign tbl (ID_ep ep) newEndpoint of
                Inl p \<Rightarrow> Inl p
              | Inr tbl' \<Rightarrow> AddEndpoints_loop tbl' eps))"

definition AddEndpoints :: "RouterState \<Rightarrow> string \<Rightarrow> Endpoint list \<Rightarrow> RouterState \<times> panic option" where
  "AddEndpoints st sid endpoints =
     (case FindServiceUnit st sid of (frontend, _) \<Rightarrow>
        (case AddEndpoints_loop (EndpointTable frontend) endpoints of
           Inl p \<Rightarrow> (st, Some p)
         | Inr tbl \<Rightarrow> (st(sid \<mapsto> frontend\<lparr>EndpointTable := tbl\<rparr>), None)))"

text \<open>
  A sequence of \<^verbatim>\<open>AddEndpoints\<close> calls for one id, each with its own list of endpoints. A
  panic ends the sequence.
\<close>

fun AddEndpoints_calls :: "RouterState \<Rightarrow> string \<Rightarrow> Endpoint list list \<Rightarrow> RouterState \<times> panic option" where
  "AddEndpoints_calls st sid [] = (st, None)"
| "AddEndpoints_calls st sid (eps # rest) =
     (case AddEndpoints st sid eps of
        (st', Some p) \<Rightarrow> (st', Some p)
      | (st', None) \<Rightarrow> AddEndpoints_calls st' sid rest)"

section \<open>The world outside the router\<close>

text \<open>
  The router reads and writes files, renders templates and runs the reload script. These
  are calls into the Go library and the operating system. The model keeps the list of the
  calls made so far, oldest first, and takes the answer to each call from an environment,
  which may let the answer depend on everything done before. The lines written to the log
  are kept as well, each with its format string and its arguments.

  \<^verbatim>\<open>os/exec\<close> reports a script that exits non-zero as an error holding the state of
  the process, that is, its exit status; \<^verbatim>\<open>CombinedOutput\<close> returns what the script wrote
  as a separate value.
\<close>

datatype error =
    ErrNotExist
  | ErrPermission
  | ErrIO string
  | ErrSyntax string
  | ExitError nat

record templateData =
  State :: RouterState
  DefaultCertificate :: string

datatype 't call =
    ReadFile string
  | WriteFile string string
  | WriteCertificatesForConfig ServiceAliasConfig
  | Create string
  | Execute 't string templateData
  | Close string
  | CombinedOutput string

datatype severity = INFO_V4 | WARNING | ERROR

datatype logarg = Str string | Err error

datatype logline = Log severity string "logarg list"

record 't io =
  calls :: "'t call list"
  glog :: "logline list"

definition called :: "'t io \<Rightarrow> 't call \<Rightarrow> 't io" where
  "called s c = s\<lparr>calls := calls s @ [c]\<rparr>"

definition logf :: "'t io \<Rightarrow> severity \<Rightarrow> string \<Rightarrow> logarg list \<Rightarrow> 't io" where
  "logf s sev fmt args = s\<lparr>glog := glog s @ [Log sev fmt args]\<rparr>"

text \<open>
  The environment. \<^verbatim>\<open>json.MarshalIndent\<close> and \<^verbatim>\<open>json.Unmarshal\<close> are functions of their
  arguments; \<^verbatim>\<open>json.Unmarshal(dat, &r.state)\<close> returns the state it leaves in the router
  with its error. Every other answer may depend on the calls made before. The state file
  is always written with mode 0644, which the call does not carry. The method
  \<^verbatim>\<open>writeCertificatesForConfig\<close> of the certificate manager is outside router.go and is
  one call here. The three \<open>range\<close> fields give the order in which a \<^verbatim>\<open>range\<close> loop visits
  the keys of a map, which Go leaves open.
\<close>

record 't env =
  jsonMarshalIndent :: "RouterState \<Rightarrow> error + string"
  jsonUnmarshal :: "string \<Rightarrow> RouterState \<Rightarrow> RouterState \<times> error option"
  ioutilReadFile :: "'t call list \<Rightarrow> string \<Rightarrow> error + string"
  ioutilWriteFile :: "'t call list \<Rightarrow> string \<Rightarrow> string \<Rightarrow> error option"
  writeCertificatesForConfig :: "'t call list \<Rightarrow> ServiceAliasConfig \<Rightarrow> error option"
  osCreate :: "'t call list \<Rightarrow> string \<Rightarrow> error option"
  templateExecute :: "'t call list \<Rightarrow> 't \<Rightarrow> string \<Rightarrow> templateData \<Rightarrow> error option"
  cmdCombinedOutput :: "'t call list \<Rightarrow> string \<Rightarrow> string \<times> error option"
  rangeState :: "RouterState \<Rightarrow> string list"
  rangeAliases :: "ServiceUnit \<Rightarrow> string list"
  rangeTemplates :: "(string \<rightharpoonup> 't) \<Rightarrow> string list"

text \<open>
  A list of keys is the order of a \<^verbatim>\<open>range\<close> loop over a map when it has every key of the
  map once. The loop sees the entries of the map in that order; over a nil map it sees
  nothing.
\<close>

definition enumerates :: "string list \<Rightarrow> (string \<rightharpoonup> 'v) \<Rightarrow> bool" where
  "enumerates ks m = (distinct ks \<and> set ks = dom m)"

definition rangeEntries :: "string list \<Rightarrow> (string \<rightharpoonup> 'v) \<Rightarrow> (string \<times> 'v) list" where
  "rangeEntries ks m = List.map_filter (\<lambda>k. map_option (Pair k) (m k)) ks"

definition rangeValues :: "string list \<Rightarrow> 'v gomap \<Rightarrow> 'v list" where
  "rangeValues ks m = List.map_filter (mapIndex m) ks"

section \<open>The router\<close>

text \<open>
  The fields of \<^verbatim>\<open>templateRouter\<close>; its certificate manager has no fields. The type of a
  parsed template is a parameter.
\<close>

record 't templateRouter =
  templates :: "string \<rightharpoonup> 't"
  reloadScriptPath :: string
  state :: RouterState
  defaultCertificate :: string
  defaultCertificatePath :: string

definition routeFile :: string where
  "routeFile = ''/var/lib/containers/router/routes.json''"

definition readState :: "'t env \<Rightarrow> 't templateRouter \<Rightarrow> 't io \<Rightarrow> (error option \<times> 't templateRouter) \<times> 't io" where
  "readState env r s =
     (case ioutilReadFile env (calls s) routeFile of
        Inl err \<Rightarrow> ((None, r\<lparr>state := Map.empty\<rparr>), called s (ReadFile routeFile))
      | Inr dat \<Rightarrow>
          (case jsonUnmarshal env dat (state r) of
             (st, err) \<Rightarrow> ((err, r\<lparr>state := st\<rparr>), called s (ReadFile routeFile))))"

definition writeState :: "'t env \<Rightarrow> 't templateRouter \<Rightarrow> 't io \<Rightarrow> error option \<times> 't io" where
  "writeState env r s =
     (case jsonMarshalIndent env (state r) of
        Inl err \<Rightarrow> (Some err, logf s ERROR ''Failed to marshal route table: %v'' [Err err])
      | Inr dat \<Rightarrow>
          (case ioutilWriteFile env (calls s) routeFile dat of
             Some err \<Rightarrow>
               (Some err, logf (called s (WriteFile routeFile dat)) ERROR
                            ''Failed to write route table: %v'' [Err err])
           | None \<Rightarrow> (None, called s (WriteFile routeFile dat))))"

section \<open>The certificate write policy\<close>

definition hasRequiredEdgeCerts :: "ServiceAliasConfig \<Rightarrow> bool" where
  "hasRequiredEdgeCerts cfg =
     (case mapIndex (Certificates cfg) (Host cfg) of
        Some hostCert \<Rightarrow> length (Contents hostCert) > 0 \<and> length (PrivateKey hostCert) > 0
      | None \<Rightarrow> False)"

definition shouldWriteCerts :: "'t templateRouter \<Rightarrow> ServiceAliasConfig \<Rightarrow> 't io \<Rightarrow> bool \<times> 't io" where
  "shouldWriteCerts r cfg s =
     (if Certificates cfg = None then (False, s)
      else if TLSTermination cfg = TLSTerminationEdge \<or> TLSTermination cfg = TLSTerminationReencrypt then
        (if hasRequiredEdgeCerts cfg then (True, s)
         else
           (let msg = ''a %s terminated route with host %s does not have the required certificates.  The route will still be created but no certificates will be written'';
                args = [Str (TLSTermination cfg), Str (Host cfg)]
            in if length (defaultCertificate r) > 0
               then (False, logf s INFO_V4 msg args)
               else (False, logf s WARNING msg args)))
      else (False, s))"

definition writeCertificates :: "'t env \<Rightarrow> 't templateRouter \<Rightarrow> ServiceAliasConfig \<Rightarrow> 't io \<Rightarrow> error option \<times> 't io" where
  "writeCertificates env r cfg s =
     (case shouldWriteCerts r cfg s of
        (True, s') \<Rightarrow>
          (writeCertificatesForConfig env (calls s') cfg, called s' (WriteCertificatesForConfig cfg))
      | (False, s') \<Rightarrow> (None, s'))"

section \<open>Commit\<close>

text \<open>
  The two nested loops of \<^verbatim>\<open>writeConfig\<close> over the units and their configurations, and its
  loop over the templates. An error leaves the loop and the function at once.
\<close>

fun writeConfig_aliases ::
  "'t env \<Rightarrow> 't templateRouter \<Rightarrow> ServiceUnit \<Rightarrow> ServiceAliasConfig list \<Rightarrow> 't io \<Rightarrow> error option \<times> 't io" where
  "writeConfig_aliases env r serviceUnit [] s = (None, s)"
| "writeConfig_aliases env r serviceUnit (cfg # cfgs) s =
     (case writeCertificates env r cfg s of
        (Some err, s') \<Rightarrow>
          (Some err, logf s' ERROR ''Error writing certificates for %s: %v''
                       [Str (Name serviceUnit), Err err])
      | (None, s') \<Rightarrow> writeConfig_aliases env r serviceUnit cfgs s')"

fun writeConfig_units ::
  "'t env \<Rightarrow> 't templateRouter \<Rightarrow> ServiceUnit list \<Rightarrow> 't io \<Rightarrow> error option \<times> 't io" where
  "writeConfig_units env r [] s = (None, s)"
| "writeConfig_units env r (serviceUnit # units) s =
     (case writeConfig_aliases env r serviceUnit
             (rangeValues (rangeAliases env serviceUnit) (ServiceAliasConfigs serviceUnit)) s of
        (Some err, s') \<Rightarrow> (Some err, s')
      | (None, s') \<Rightarrow> writeConfig_units env r units s')"

fun writeConfig_templates ::
  "'t env \<Rightarrow> 't templateRouter \<Rightarrow> (string \<times> 't) list \<Rightarrow> 't io \<Rightarrow> error option \<times> 't io" where
  "writeConfig_templates env r [] s = (None, s)"
| "writeConfig_templates env r ((path, template) # rest) s =
     (case osCreate env (calls s) path of
        Some err \<Rightarrow>
          (Some err, logf (called s (Create path)) ERROR
                       ''Error creating config file %v: %v'' [Str path, Err err])
      | None \<Rightarrow>
          (let s1 = called s (Create path);
               dat = \<lparr>State = state r, DefaultCertificate = defaultCertificatePath r\<rparr>
           in case templateExecute env (calls s1) template path dat of
                Some err \<Rightarrow>
                  (Some err, logf (called s1 (Execute template path dat)) ERROR
                               ''Error executing template for file %v: %v'' [Str path, Err err])
              | None \<Rightarrow>
                  writeConfig_templates env r rest
                    (called (called s1 (Execute template path dat)) (Close path))))"

definition writeConfig :: "'t env \<Rightarrow> 't templateRouter \<Rightarrow> 't io \<Rightarrow> error option \<times> 't io" where
  "writeConfig env r s =
     (case writeConfig_units env r
             (List.map_filter (state r) (rangeState env (state r))) s of
        (Some err, s') \<Rightarrow> (Some err, s')
      | (None, s') \<Rightarrow>
          writeConfig_templates env r
            (rangeEntries (rangeTemplates env (templates r)) (templates r)) s')"

definition reloadRouter :: "'t env \<Rightarrow> 't templateRouter \<Rightarrow> 't io \<Rightarrow> error option \<times> 't io" where
  "reloadRouter env r s =
     (case cmdCombinedOutput env (calls s) (reloadScriptPath r) of
        (out, err) \<Rightarrow>
          (let s1 = called s (CombinedOutput (reloadScriptPath r))
           in case err of
                Some e \<Rightarrow>
                  (Some e, logf s1 ERROR
                             (''Error reloading router: %v'' @ [CHR 0x0A] @ '' Reload output: %v'')
                             [Err e, Str out])
              | None \<Rightarrow> (None, s1)))"

definition Commit :: "'t env \<Rightarrow> 't templateRouter \<Rightarrow> 't io \<Rightarrow> error option \<times> 't io" where
  "Commit env r s =
     (let s0 = logf s INFO_V4 ''Commiting router changes'' []
      in case writeState env r s0 of
           (Some err, s1) \<Rightarrow> (Some err, s1)
         | (None, s1) \<Rightarrow>
             (case writeConfig env r s1 of
                (Some err, s2) \<Rightarrow> (Some err, s2)
              | (None, s2) \<Rightarrow>
                  (case reloadRouter env r s2 of
                     (Some err, s3) \<Rightarrow> (Some err, s3)
                   | (None, s3) \<Rightarrow> (None, s3))))"

section \<open>First write wins, as a table\<close>

text \<open>
  The endpoint table the specification expects after endpoints \<open>eps\<close> have been offered, in
  this order, to a table \<open>tbl\<close>: an ID the table has keeps its endpoint, any other ID gets
  the first endpoint offered under it.
\<close>

definition firstWrite :: "(string \<rightharpoonup> Endpoint) \<Rightarrow> Endpoint list \<Rightarrow> (string \<rightharpoonup> Endpoint)" where
  "firstWrite tbl eps =
     (\<lambda>k. case tbl k of Some e \<Rightarrow> Some e | None \<Rightarrow> find (\<lambda>ep. ID_ep ep = k) eps)"

section \<open>Concrete inputs\<close>

definition route_ex :: Route where
  "route_ex = \<lparr>Namespace = ''ns'', Name_route = ''web'', Host_route = ''a.example.com'',
               Path_route = '''',
               TLS = Some \<lparr>Termination = ''edge'', Certificate_tls = ''CERT'', Key = ''KEY'',
                          CACertificate = '''', DestinationCACertificate = ''''\<rparr>\<rparr>"

definition route_api_ex :: Route where
  "route_api_ex = \<lparr>Namespace = ''ns'', Name_route = ''api'', Host_route = ''b.example.com'',
                   Path_route = '''', TLS = None\<rparr>"

definition route_passthrough_ex :: Route where
  "route_passthrough_ex =
     \<lparr>Namespace = ''ns'', Name_route = ''web'', Host_route = ''a.example.com'',
      Path_route = '''',
      TLS = Some \<lparr>Termination = ''passthrough'', Certificate_tls = ''CERT'', Key = ''KEY'',
                 CACertificate = ''CA'', DestinationCACertificate = ''DEST''\<rparr>\<rparr>"

definition alias_old_ex :: ServiceAliasConfig where
  "alias_old_ex = \<lparr>Host = ''old.example.com'', Path = '''', TLSTermination = '''',
                   Certificates = None\<rparr>"

definition state_replaced_ex :: RouterState where
  "state_replaced_ex =
     [''svc1'' \<mapsto> \<lparr>Name = ''svc1'', EndpointTable = Some Map.empty,
                     ServiceAliasConfigs = Some [''ns-web'' \<mapsto> alias_old_ex]\<rparr>]"

definition route_left_ex :: Route where
  "route_left_ex = \<lparr>Namespace = ''a-b'', Name_route = ''c'', Host_route = '''',
                    Path_route = '''', TLS = None\<rparr>"

definition route_right_ex :: Route where
  "route_right_ex = \<lparr>Namespace = ''a'', Name_route = ''b-c'', Host_route = '''',
                     Path_route = '''', TLS = None\<rparr>"

definition ep1 :: Endpoint where
  "ep1 = \<lparr>ID_ep = ''e1'', IP = ''10.0.0.1'', Port = ''80''\<rparr>"

definition ep1_again :: Endpoint where
  "ep1_again = \<lparr>ID_ep = ''e1'', IP = ''10.0.0.9'', Port = ''8080''\<rparr>"

definition ep2 :: Endpoint where
  "ep2 = \<lparr>ID_ep = ''e2'', IP = ''10.0.0.2'', Port = ''80''\<rparr>"

definition io_empty :: "string io" where
  "io_empty = \<lparr>calls = [], glog = []\<rparr>"

definition router_ex :: "string templateRouter" where
  "router_ex = \<lparr>templates = [''/etc/haproxy.cfg'' \<mapsto> ''haproxy template''],
                reloadScriptPath = ''/usr/bin/reload'',
                state = fst (AddRoute (CreateServiceUnit Map.empty ''svc1'') ''svc1'' route_ex),
                defaultCertificate = '''',
                defaultCertificatePath = ''''\<rparr>"

section \<open>Commit as a plan of steps\<close>

text \<open>
  The commit pipeline in the words of the specification: a list of steps, run in order,
  where the first step that fails ends the run and its error is the result.
\<close>

datatype 't step =
    StepPersist
  | StepCerts ServiceUnit ServiceAliasConfig
  | StepRender string 't
  | StepReload

fun failfast :: "('a \<Rightarrow> 's \<Rightarrow> error option \<times> 's) \<Rightarrow> 'a list \<Rightarrow> 's \<Rightarrow> error option \<times> 's" where
  "failfast run [] s = (None, s)"
| "failfast run (x # xs) s =
     (case run x s of
        (Some err, s') \<Rightarrow> (Some err, s')
      | (None, s') \<Rightarrow> failfast run xs s')"

text \<open>
  What one step does is taken from the code: persisting is \<^verbatim>\<open>writeState\<close>, the certificates
  of one configuration and the rendering of one template are one round of the loops of
  \<^verbatim>\<open>writeConfig\<close>, reloading is \<^verbatim>\<open>reloadRouter\<close>.
\<close>

definition Commit_step :: "'t env \<Rightarrow> 't templateRouter \<Rightarrow> 't step \<Rightarrow> 't io \<Rightarrow> error option \<times> 't io" where
  "Commit_step env r x s =
     (case x of
        StepPersist \<Rightarrow> writeState env r s
      | StepCerts serviceUnit cfg \<Rightarrow> writeConfig_aliases env r serviceUnit [cfg] s
      | StepRender path template \<Rightarrow> writeConfig_templates env r [(path, template)] s
      | StepReload \<Rightarrow> reloadRouter env r s)"

definition certSteps :: "'t env \<Rightarrow> 't templateRouter \<Rightarrow> 't step list" where
  "certSteps env r =
     concat (map (\<lambda>serviceUnit.
                    map (StepCerts serviceUnit)
                      (rangeValues (rangeAliases env serviceUnit) (ServiceAliasConfigs serviceUnit)))
                 (List.map_filter (state r) (rangeState env (state r))))"

definition renderSteps :: "'t env \<Rightarrow> 't templateRouter \<Rightarrow> 't step list" where
  "renderSteps env r =
     map (\<lambda>(path, template). StepRender path template)
       (rangeEntries (rangeTemplates env (templates r)) (templates r))"

text \<open>
  The \<^verbatim>\<open>range\<close> orders of an environment fit a router when each has every key of the map
  it is for exactly once.
\<close>

definition rangeOK :: "'t env \<Rightarrow> 't templateRouter \<Rightarrow> bool" where
  "rangeOK env r =
     (enumerates (rangeState env (state r)) (state r) \<and>
      (\<forall>sid serviceUnit aliases.
         state r sid = Some serviceUnit \<and> ServiceAliasConfigs serviceUnit = Some aliases \<longrightarrow>
           enumerates (rangeAliases env serviceUnit) aliases) \<and>
      enumerates (rangeTemplates env (templates r)) (templates r))"





text \<open>
  The configurations for which the policy asks for certificates (the policy reads the
  router and the configuration only), and the calls that a step makes when it goes
  through; reloading makes its call whether the script succeeds or not.
\<close>

definition certsWanted :: "'t templateRouter \<Rightarrow> ServiceAliasConfig \<Rightarrow> bool" where
  "certsWanted r cfg = fst (shouldWriteCerts r cfg \<lparr>calls = [], glog = []\<rparr>)"

definition stepCalls :: "'t env \<Rightarrow> 't templateRouter \<Rightarrow> 't step \<Rightarrow> 't call list" where
  "stepCalls env r x =
     (case x of
        StepPersist \<Rightarrow>
          (case jsonMarshalIndent env (state r) of
             Inl err \<Rightarrow> []
           | Inr dat \<Rightarrow> [WriteFile routeFile dat])
      | StepCerts serviceUnit cfg \<Rightarrow>
          (if certsWanted r cfg then [WriteCertificatesForConfig cfg] else [])
      | StepRender path template \<Rightarrow>
          [Create path,
           Execute template path \<lparr>State = state r, DefaultCertificate = defaultCertificatePath r\<rparr>,
           Close path]
      | StepReload \<Rightarrow> [CombinedOutput (reloadScriptPath r)])"




section \<open>Concrete environments\<close>

definition env_ok :: "string env" where
  "env_ok = \<lparr>jsonMarshalIndent = (\<lambda>st. Inr ''{...}''),
             jsonUnmarshal = (\<lambda>dat st. (st, None)),
             ioutilReadFile = (\<lambda>h path. Inr ''{}''),
             ioutilWriteFile = (\<lambda>h path dat. None),
             writeCertificatesForConfig = (\<lambda>h cfg. None),
             osCreate = (\<lambda>h path. None),
             templateExecute = (\<lambda>h template path dat. None),
             cmdCombinedOutput = (\<lambda>h path. (''reloaded'', None)),
             rangeState = (\<lambda>st. [''svc1'']),
             rangeAliases = (\<lambda>serviceUnit. [''ns-web'']),
             rangeTemplates = (\<lambda>ts. [''/etc/haproxy.cfg''])\<rparr>"

definition env_read_absent :: "string env" where
  "env_read_absent = env_ok\<lparr>ioutilReadFile := (\<lambda>h path. Inl ErrNotExist)\<rparr>"

definition env_read_denied :: "string env" where
  "env_read_denied = env_ok\<lparr>ioutilReadFile := (\<lambda>h path. Inl ErrPermission)\<rparr>"

definition env_parse_fails :: "string env" where
  "env_parse_fails =
     env_ok\<lparr>ioutilReadFile := (\<lambda>h path. Inr ''{'' ),
            jsonUnmarshal := (\<lambda>dat st. (st, Some (ErrSyntax ''unexpected end of JSON input'')))\<rparr>"




definition env_reload_fails :: "string \<Rightarrow> string env" where
  "env_reload_fails out = env_ok\<lparr>cmdCombinedOutput := (\<lambda>h path. (out, Some (ExitError 1)))\<rparr>"



text \<open>The configuration and the unit that the router of the examples holds.\<close>

definition cfg_ex :: ServiceAliasConfig where
  "cfg_ex = \<lparr>Host = ''a.example.com'', Path = '''', TLSTermination = ''edge'',
             Certificates = Some [''a.example.com'' \<mapsto>
               \<lparr>ID = ''a.example.com'', Contents = ''CERT'', PrivateKey = ''KEY''\<rparr>]\<rparr>"

definition unit_ex :: ServiceUnit where
  "unit_ex = \<lparr>Name = ''svc1'', EndpointTable = Some Map.empty,
              ServiceAliasConfigs = Some [''ns-web'' \<mapsto> cfg_ex]\<rparr>"

section \<open>Go maps\<close>

lemma mapIndex_None: "mapIndex None k = None"
  by (simp add: mapIndex_def)

lemma mapIndex_Some: "mapIndex (Some f) k = f k"
  by (simp add: mapIndex_def)

lemma mapAssign_None: "mapAssign None k v = Inl AssignmentToEntryInNilMap"
  by (simp add: mapAssign_def)

lemma mapAssign_Some: "mapAssign (Some f) k v = Inr (Some (f(k \<mapsto> v)))"
  by (simp add: mapAssign_def)

section \<open>The certificate write policy decides on termination and host certificate\<close>

lemma shouldWriteCerts_fst:
  "fst (shouldWriteCerts r cfg s) =
     (Certificates cfg \<noteq> None \<and>
      (TLSTermination cfg = TLSTerminationEdge \<or> TLSTermination cfg = TLSTerminationReencrypt) \<and>
      hasRequiredEdgeCerts cfg)"
  by (simp add: shouldWriteCerts_def Let_def)

lemma hasRequiredEdgeCerts_iff:
  "hasRequiredEdgeCerts cfg =
     (\<exists>certs hostCert. Certificates cfg = Some certs \<and> certs (Host cfg) = Some hostCert \<and>
        Contents hostCert \<noteq> '''' \<and> PrivateKey hostCert \<noteq> '''')"
  by (auto simp: hasRequiredEdgeCerts_def mapIndex_def split: option.splits)

text \<open>
  Claim C1. \<^verbatim>\<open>shouldWriteCerts\<close> returns true exactly when the termination of the
  configuration is edge or reencrypt, its certificate map is not nil, and the map has
  under the host of the configuration a certificate whose contents and private key are
  both non-empty. In particular it returns false for no termination (the empty string),
  for passthrough, for a nil certificate map, and for a host certificate with empty
  contents or an empty private key.
\<close>

theorem shouldWriteCerts_iff:
  "fst (shouldWriteCerts r cfg s) =
     ((TLSTermination cfg = TLSTerminationEdge \<or> TLSTermination cfg = TLSTerminationReencrypt) \<and>
      (\<exists>certs hostCert. Certificates cfg = Some certs \<and> certs (Host cfg) = Some hostCert \<and>
         Contents hostCert \<noteq> '''' \<and> PrivateKey hostCert \<noteq> ''''))
   \<and> fst (shouldWriteCerts r (cfg\<lparr>TLSTermination := ''''\<rparr>) s) = False
   \<and> fst (shouldWriteCerts r (cfg\<lparr>TLSTermination := TLSTerminationPassthrough\<rparr>) s) = False
   \<and> fst (shouldWriteCerts r (cfg\<lparr>Certificates := None\<rparr>) s) = False
   \<and> fst (shouldWriteCerts r
            (cfg\<lparr>Certificates := Some (certs(Host cfg \<mapsto> hostCert\<lparr>Contents := ''''\<rparr>))\<rparr>) s) = False
   \<and> fst (shouldWriteCerts r
            (cfg\<lparr>Certificates := Some (certs(Host cfg \<mapsto> hostCert\<lparr>PrivateKey := ''''\<rparr>))\<rparr>) s) = False"
proof -
  have main: "fst (shouldWriteCerts r cfg s) =
     ((TLSTermination cfg = TLSTerminationEdge \<or> TLSTermination cfg = TLSTerminationReencrypt) \<and>
      (\<exists>certs hostCert. Certificates cfg = Some certs \<and> certs (Host cfg) = Some hostCert \<and>
         Contents hostCert \<noteq> '''' \<and> PrivateKey hostCert \<noteq> ''''))"
    unfolding shouldWriteCerts_fst hasRequiredEdgeCerts_iff by auto
  have none: "fst (shouldWriteCerts r (cfg\<lparr>TLSTermination := ''''\<rparr>) s) = False"
    by (simp add: shouldWriteCerts_fst TLSTerminationEdge_def TLSTerminationReencrypt_def)
  have pass: "fst (shouldWriteCerts r (cfg\<lparr>TLSTermination := TLSTerminationPassthrough\<rparr>) s) = False"
    by (simp add: shouldWriteCerts_fst TLSTerminationEdge_def TLSTerminationReencrypt_def
        TLSTerminationPassthrough_def)
  have nil: "fst (shouldWriteCerts r (cfg\<lparr>Certificates := None\<rparr>) s) = False"
    by (simp add: shouldWriteCerts_fst)
  have c: "fst (shouldWriteCerts r
            (cfg\<lparr>Certificates := Some (certs(Host cfg \<mapsto> hostCert\<lparr>Contents := ''''\<rparr>))\<rparr>) s) = False"
    by (simp add: shouldWriteCerts_fst hasRequiredEdgeCerts_def mapIndex_def)
  have k: "fst (shouldWriteCerts r
            (cfg\<lparr>Certificates := Some (certs(Host cfg \<mapsto> hostCert\<lparr>PrivateKey := ''''\<rparr>))\<rparr>) s) = False"
    by (simp add: shouldWriteCerts_fst hasRequiredEdgeCerts_def mapIndex_def)
  from main none pass nil c k show ?thesis by blast
qed

theorem shouldWriteCerts_iff_witness:
  "fst (shouldWriteCerts router_ex (AddRoute_config route_ex) io_empty) \<and>
   TLSTermination (AddRoute_config route_ex) = ''edge'' \<and>
   mapIndex (Certificates (AddRoute_config route_ex)) ''a.example.com'' =
     Some \<lparr>ID = ''a.example.com'', Contents = ''CERT'', PrivateKey = ''KEY''\<rparr>"
  using shouldWriteCerts_iff[of router_ex "AddRoute_config route_ex" io_empty]
  by (simp add: AddRoute_config_def route_ex_def Let_def TLSTerminationEdge_def
      TLSTerminationPassthrough_def mapIndex_def)

section \<open>Routes on units\<close>

lemma AddRoute_present:
  "st sid = Some unit \<Longrightarrow> ServiceAliasConfigs unit = Some aliases \<Longrightarrow>
   AddRoute st sid route =
     (st(sid \<mapsto> unit\<lparr>ServiceAliasConfigs :=
           Some (aliases(routeKey route \<mapsto> AddRoute_config route))\<rparr>), None)"
  by (simp add: AddRoute_def FindServiceUnit_def mapAssign_def Let_def)

text \<open>
  Claim C3. For an id that the state does not have, \<^verbatim>\<open>AddRoute\<close> leaves the state as it
  was: the unit it works on is the zero value that \<^verbatim>\<open>FindServiceUnit\<close> returns, and the
  assignment into the nil alias map of that unit panics before the store into the state is
  reached, so no entry appears and no entry changes. Once \<^verbatim>\<open>CreateServiceUnit\<close> has been
  called for the id, \<^verbatim>\<open>AddRoute\<close> stores the configuration under the route key.
\<close>

theorem AddRoute_absent_unit:
  "st sid = None \<Longrightarrow>
     fst (AddRoute st sid route) = st \<and>
     AddRoute st sid route = (st, Some AssignmentToEntryInNilMap) \<and>
     AddRoute (CreateServiceUnit st sid) sid route =
       ((CreateServiceUnit st sid)
          (sid \<mapsto> \<lparr>Name = sid, EndpointTable = Some Map.empty,
                    ServiceAliasConfigs = Some [routeKey route \<mapsto> AddRoute_config route]\<rparr>), None)"
  by (simp add: AddRoute_def FindServiceUnit_def zeroServiceUnit_def mapAssign_def
      CreateServiceUnit_def Let_def)

theorem AddRoute_absent_unit_witness:
  "(Map.empty :: RouterState) ''svc1'' = None \<and>
   fst (AddRoute Map.empty ''svc1'' route_ex) = Map.empty \<and>
   snd (AddRoute Map.empty ''svc1'' route_ex) = Some AssignmentToEntryInNilMap"
  using AddRoute_absent_unit[of Map.empty "''svc1''" route_ex] by simp

text \<open>
  Claim C5. For a route whose TLS termination is passthrough, the configuration that
  \<^verbatim>\<open>AddRoute\<close> builds has termination passthrough and a nil certificate map, whatever the
  certificate, key, CA certificate and destination CA certificate of the route are; on a
  unit with an alias map this is the configuration stored under the route key.
\<close>

theorem AddRoute_passthrough:
  "TLS route = Some tls \<Longrightarrow> Termination tls = TLSTerminationPassthrough \<Longrightarrow>
     TLSTermination (AddRoute_config route) = TLSTerminationPassthrough \<and>
     Certificates (AddRoute_config route) = None \<and>
     (st sid = Some unit \<and> ServiceAliasConfigs unit = Some aliases \<longrightarrow>
        AddRoute st sid route =
          (st(sid \<mapsto> unit\<lparr>ServiceAliasConfigs :=
                Some (aliases(routeKey route \<mapsto> AddRoute_config route))\<rparr>), None))"
  by (simp add: AddRoute_config_def AddRoute_def FindServiceUnit_def mapAssign_def Let_def
      TLSTerminationPassthrough_def)

theorem AddRoute_passthrough_witness:
  "TLS route_passthrough_ex =
     Some \<lparr>Termination = ''passthrough'', Certificate_tls = ''CERT'', Key = ''KEY'',
           CACertificate = ''CA'', DestinationCACertificate = ''DEST''\<rparr> \<and>
   TLSTermination (AddRoute_config route_passthrough_ex) = ''passthrough'' \<and>
   Certificates (AddRoute_config route_passthrough_ex) = None \<and>
   AddRoute (CreateServiceUnit Map.empty ''svc1'') ''svc1'' route_passthrough_ex =
     ([''svc1'' \<mapsto> \<lparr>Name = ''svc1'', EndpointTable = Some Map.empty,
          ServiceAliasConfigs = Some [''ns-web'' \<mapsto>
            \<lparr>Host = ''a.example.com'', Path = '''', TLSTermination = ''passthrough'',
             Certificates = None\<rparr>]\<rparr>], None)"
proof -
  have h1: "TLS route_passthrough_ex =
     Some \<lparr>Termination = ''passthrough'', Certificate_tls = ''CERT'', Key = ''KEY'',
           CACertificate = ''CA'', DestinationCACertificate = ''DEST''\<rparr>"
    by (simp add: route_passthrough_ex_def)
  have h2: "Termination \<lparr>Termination = ''passthrough'', Certificate_tls = ''CERT'', Key = ''KEY'',
           CACertificate = ''CA'', DestinationCACertificate = ''DEST''\<rparr> = TLSTerminationPassthrough"
    by (simp add: TLSTerminationPassthrough_def)
  have cfg: "AddRoute_config route_passthrough_ex =
      \<lparr>Host = ''a.example.com'', Path = '''', TLSTermination = ''passthrough'',
       Certificates = None\<rparr>"
    by (simp add: AddRoute_config_def route_passthrough_ex_def Let_def
        TLSTerminationPassthrough_def)
  have key: "routeKey route_passthrough_ex = ''ns-web''"
    by (simp add: routeKey_def route_passthrough_ex_def)
  from AddRoute_passthrough[OF h1 h2, of "CreateServiceUnit Map.empty ''svc1''" "''svc1''"
      "\<lparr>Name = ''svc1'', EndpointTable = Some Map.empty, ServiceAliasConfigs = Some Map.empty\<rparr>"
      Map.empty]
  show ?thesis
    using h1 by (simp add: cfg key CreateServiceUnit_def TLSTerminationPassthrough_def)
qed

text \<open>
  Claim C8, as the code has it. On a unit that exists and has an alias map, \<^verbatim>\<open>AddRoute\<close>
  followed by \<^verbatim>\<open>RemoveRoute\<close> for the same route leaves the alias map it found without the
  entry under the route key. So the map is the one before \<^verbatim>\<open>AddRoute\<close> exactly when it had
  no alias under that key; an alias that \<^verbatim>\<open>AddRoute\<close> replaced is gone afterwards.
\<close>

theorem AddRoute_RemoveRoute:
  assumes "st sid = Some unit" and "ServiceAliasConfigs unit = Some aliases"
  shows "snd (AddRoute st sid route) = None \<and>
         RemoveRoute (fst (AddRoute st sid route)) sid route =
           st(sid \<mapsto> unit\<lparr>ServiceAliasConfigs := Some (aliases(routeKey route := None))\<rparr>) \<and>
         ((aliases(routeKey route := None) = aliases) = (aliases (routeKey route) = None))"
proof -
  have add: "AddRoute st sid route =
     (st(sid \<mapsto> unit\<lparr>ServiceAliasConfigs :=
           Some (aliases(routeKey route \<mapsto> AddRoute_config route))\<rparr>), None)"
    using assms by (rule AddRoute_present)
  have rem: "RemoveRoute (fst (AddRoute st sid route)) sid route =
           st(sid \<mapsto> unit\<lparr>ServiceAliasConfigs := Some (aliases(routeKey route := None))\<rparr>)"
    unfolding add by (simp add: RemoveRoute_def mapDelete_def)
  have eq: "(aliases(routeKey route := None) = aliases) = (aliases (routeKey route) = None)"
    by (auto simp: fun_upd_idem_iff)
  from add rem eq show ?thesis by simp
qed

theorem AddRoute_RemoveRoute_witness:
  "snd (AddRoute (CreateServiceUnit Map.empty ''svc1'') ''svc1'' route_ex) = None \<and>
   RemoveRoute (fst (AddRoute (CreateServiceUnit Map.empty ''svc1'') ''svc1'' route_ex))
       ''svc1'' route_ex =
     CreateServiceUnit Map.empty ''svc1''"
proof -
  have h1: "CreateServiceUnit Map.empty ''svc1'' ''svc1'' =
      Some \<lparr>Name = ''svc1'', EndpointTable = Some Map.empty,
            ServiceAliasConfigs = Some Map.empty\<rparr>"
    by (simp add: CreateServiceUnit_def)
  have h2: "ServiceAliasConfigs \<lparr>Name = ''svc1'', EndpointTable = Some Map.empty,
                                ServiceAliasConfigs = Some Map.empty\<rparr> = Some Map.empty"
    by simp
  from AddRoute_RemoveRoute[of "CreateServiceUnit Map.empty ''svc1''" "''svc1''" _ Map.empty
      route_ex, OF h1 h2]
  show ?thesis by (simp add: CreateServiceUnit_def)
qed

theorem AddRoute_RemoveRoute_counterexample:
  "state_replaced_ex ''svc1'' =
     Some \<lparr>Name = ''svc1'', EndpointTable = Some Map.empty,
           ServiceAliasConfigs = Some [''ns-web'' \<mapsto> alias_old_ex]\<rparr> \<and>
   RemoveRoute (fst (AddRoute state_replaced_ex ''svc1'' route_ex)) ''svc1'' route_ex ''svc1'' =
     Some \<lparr>Name = ''svc1'', EndpointTable = Some Map.empty,
           ServiceAliasConfigs = Some Map.empty\<rparr> \<and>
   [''ns-web'' \<mapsto> alias_old_ex] \<noteq> Map.empty"
proof (intro conjI)
  show "state_replaced_ex ''svc1'' =
     Some \<lparr>Name = ''svc1'', EndpointTable = Some Map.empty,
           ServiceAliasConfigs = Some [''ns-web'' \<mapsto> alias_old_ex]\<rparr>"
    by (simp add: state_replaced_ex_def)
  show "RemoveRoute (fst (AddRoute state_replaced_ex ''svc1'' route_ex)) ''svc1'' route_ex ''svc1'' =
     Some \<lparr>Name = ''svc1'', EndpointTable = Some Map.empty,
           ServiceAliasConfigs = Some Map.empty\<rparr>"
    by (simp add: state_replaced_ex_def route_ex_def AddRoute_def FindServiceUnit_def
        mapAssign_def Let_def routeKey_def RemoveRoute_def mapDelete_def)
  show "[''ns-web'' \<mapsto> alias_old_ex] \<noteq> Map.empty"
    by (rule map_upd_nonempty)
qed

section \<open>Route keys\<close>

lemma routeKey_split:
  "CHR ''-'' \<notin> set a \<Longrightarrow> CHR ''-'' \<notin> set b \<Longrightarrow> a @ ''-'' @ x = b @ ''-'' @ y \<Longrightarrow>
   a = b \<and> x = y"
proof (induction a arbitrary: b)
  case Nil
  then show ?case by (cases b) auto
next
  case (Cons c a)
  then show ?case by (cases b) auto
qed

text \<open>
  Claim C9, as the code has it. \<^verbatim>\<open>routeKey\<close> joins namespace and name with \<open>-\<close> and does
  not look inside either. Two routes whose namespaces have no \<open>-\<close> and whose pairs of
  namespace and name differ get different keys. Nothing in the code keeps \<open>-\<close> out of a
  namespace, and with it two different pairs can get the same key.
\<close>

theorem routeKey_injective:
  "CHR ''-'' \<notin> set (Namespace a) \<Longrightarrow> CHR ''-'' \<notin> set (Namespace b) \<Longrightarrow>
     (Namespace a, Name_route a) \<noteq> (Namespace b, Name_route b) \<Longrightarrow> routeKey a \<noteq> routeKey b"
  unfolding routeKey_def using routeKey_split by blast

theorem routeKey_injective_witness:
  "CHR ''-'' \<notin> set (Namespace route_ex) \<and> CHR ''-'' \<notin> set (Namespace route_api_ex) \<and>
   (Namespace route_ex, Name_route route_ex) \<noteq> (Namespace route_api_ex, Name_route route_api_ex) \<and>
   routeKey route_ex \<noteq> routeKey route_api_ex"
proof -
  have h1: "CHR ''-'' \<notin> set (Namespace route_ex)" by (simp add: route_ex_def)
  have h2: "CHR ''-'' \<notin> set (Namespace route_api_ex)" by (simp add: route_api_ex_def)
  have h3: "(Namespace route_ex, Name_route route_ex) \<noteq>
            (Namespace route_api_ex, Name_route route_api_ex)"
    by (simp add: route_ex_def route_api_ex_def)
  from routeKey_injective[OF h1 h2 h3] h1 h2 h3 show ?thesis by blast
qed

theorem routeKey_collision_counterexample:
  "(Namespace route_left_ex, Name_route route_left_ex) \<noteq>
     (Namespace route_right_ex, Name_route route_right_ex) \<and>
   routeKey route_left_ex = routeKey route_right_ex"
  by (simp add: route_left_ex_def route_right_ex_def routeKey_def)

section \<open>Endpoints\<close>

lemma Endpoint_eta: "\<lparr>ID_ep = ID_ep ep, IP = IP ep, Port = Port ep\<rparr> = ep"
  by (cases ep) simp

lemma firstWrite_Nil: "firstWrite tbl [] = tbl"
  by (rule ext) (simp add: firstWrite_def split: option.split)

lemma firstWrite_Cons_absent:
  "tbl (ID_ep ep) = None \<Longrightarrow> firstWrite (tbl(ID_ep ep \<mapsto> ep)) eps = firstWrite tbl (ep # eps)"
  by (rule ext) (auto simp: firstWrite_def split: option.split)

lemma firstWrite_Cons_present:
  "tbl (ID_ep ep) = Some e \<Longrightarrow> firstWrite tbl eps = firstWrite tbl (ep # eps)"
  by (rule ext) (auto simp: firstWrite_def split: option.split)

lemma find_append_first:
  "find P (xs @ ys) = (case find P xs of Some x \<Rightarrow> Some x | None \<Rightarrow> find P ys)"
  by (induction xs) auto

lemma firstWrite_append: "firstWrite (firstWrite tbl xs) ys = firstWrite tbl (xs @ ys)"
  by (rule ext) (simp add: firstWrite_def find_append_first split: option.split)

lemma AddEndpoints_loop_nil:
  "AddEndpoints_loop None eps = (if eps = [] then Inr None else Inl AssignmentToEntryInNilMap)"
  by (cases eps) (simp_all add: mapIndex_None mapAssign_None)

lemma AddEndpoints_loop_table:
  "AddEndpoints_loop (Some tbl) eps = Inr (Some (firstWrite tbl eps))"
proof (induction eps arbitrary: tbl)
  case Nil
  then show ?case by (simp add: firstWrite_Nil)
next
  case (Cons ep eps)
  show ?case
  proof (cases "tbl (ID_ep ep)")
    case None
    then have "AddEndpoints_loop (Some tbl) (ep # eps) =
                 AddEndpoints_loop (Some (tbl(ID_ep ep \<mapsto> ep))) eps"
      by (simp add: mapIndex_Some mapAssign_Some Endpoint_eta)
    also have "\<dots> = Inr (Some (firstWrite (tbl(ID_ep ep \<mapsto> ep)) eps))"
      by (rule Cons.IH)
    also have "\<dots> = Inr (Some (firstWrite tbl (ep # eps)))"
      using firstWrite_Cons_absent[of tbl ep eps] None by simp
    finally show ?thesis .
  next
    case (Some e)
    then show ?thesis
      using firstWrite_Cons_present[of tbl ep e eps] by (simp add: mapIndex_Some Cons.IH)
  qed
qed

lemma AddEndpoints_table:
  "st sid = Some unit \<Longrightarrow> EndpointTable unit = Some tbl \<Longrightarrow>
   AddEndpoints st sid eps =
     (st(sid \<mapsto> unit\<lparr>EndpointTable := Some (firstWrite tbl eps)\<rparr>), None)"
  by (simp add: AddEndpoints_def FindServiceUnit_def AddEndpoints_loop_table)

lemma AddEndpoints_calls_table:
  "st sid = Some unit \<Longrightarrow> EndpointTable unit = Some tbl \<Longrightarrow>
   AddEndpoints_calls st sid epss =
     (st(sid \<mapsto> unit\<lparr>EndpointTable := Some (firstWrite tbl (concat epss))\<rparr>), None)"
proof (induction epss arbitrary: st unit tbl)
  case Nil
  have "unit\<lparr>EndpointTable := Some tbl\<rparr> = unit" using Nil by simp
  with Nil show ?case by (simp add: firstWrite_Nil map_upd_triv)
next
  case (Cons eps epss)
  let ?u1 = "unit\<lparr>EndpointTable := Some (firstWrite tbl eps)\<rparr>"
  let ?st1 = "st(sid \<mapsto> ?u1)"
  have step: "AddEndpoints st sid eps = (?st1, None)"
    using Cons.prems by (rule AddEndpoints_table)
  have "AddEndpoints_calls st sid (eps # epss) = AddEndpoints_calls ?st1 sid epss"
    using step by simp
  also have "\<dots> =
     (?st1(sid \<mapsto> ?u1\<lparr>EndpointTable :=
             Some (firstWrite (firstWrite tbl eps) (concat epss))\<rparr>), None)"
    by (rule Cons.IH[of ?st1 ?u1 "firstWrite tbl eps"]) simp_all
  also have "\<dots> =
     (st(sid \<mapsto> unit\<lparr>EndpointTable := Some (firstWrite tbl (concat (eps # epss)))\<rparr>), None)"
    by (simp add: firstWrite_append)
  finally show ?case .
qed

lemma AddEndpoints_calls_nil:
  "st sid = Some unit \<Longrightarrow> EndpointTable unit = None \<Longrightarrow>
   fst (AddEndpoints_calls st sid epss) = st"
proof (induction epss)
  case Nil
  then show ?case by simp
next
  case (Cons eps epss)
  show ?case
  proof (cases eps)
    case Nil
    have "st(sid \<mapsto> unit) = st"
      using Cons.prems by (simp add: map_upd_triv)
    then have "AddEndpoints st sid [] = (st, None)"
      using Cons.prems by (simp add: AddEndpoints_def FindServiceUnit_def)
    with Nil Cons show ?thesis by simp
  next
    case (Cons ep eps')
    then have "eps \<noteq> []" by simp
    then have "AddEndpoints st sid eps = (st, Some AssignmentToEntryInNilMap)"
      using Cons.prems by (simp add: AddEndpoints_def FindServiceUnit_def AddEndpoints_loop_nil)
    then show ?thesis by simp
  qed
qed

text \<open>
  Claim C4. Take a unit that exists and any sequence of \<^verbatim>\<open>AddEndpoints\<close> calls for it.
  Afterwards the unit is still there, and its endpoint table holds under every ID the
  endpoint it held before the calls, if there was one, and otherwise the first endpoint
  with that ID among all the endpoints supplied, in the order of the calls and of each
  list, with the ID, IP and port supplied. An endpoint already in the table is thus never
  replaced, and the calls do not panic. (A unit whose table is nil never gets an endpoint:
  the first call with a non-empty list panics and stores nothing.)
\<close>

theorem AddEndpoints_first_write_wins:
  assumes "st sid = Some unit"
  shows "\<exists>unit'. fst (AddEndpoints_calls st sid epss) sid = Some unit' \<and>
           (\<forall>k. mapIndex (EndpointTable unit') k =
              (case EndpointTable unit of
                 None \<Rightarrow> None
               | Some tbl \<Rightarrow>
                   (case tbl k of
                      Some e \<Rightarrow> Some e
                    | None \<Rightarrow> find (\<lambda>ep. ID_ep ep = k) (concat epss)))) \<and>
           (\<forall>k e. mapIndex (EndpointTable unit) k = Some e \<longrightarrow>
              snd (AddEndpoints_calls st sid epss) = None \<and>
              mapIndex (EndpointTable unit') k = Some e) \<and>
           (EndpointTable unit \<noteq> None \<longrightarrow> snd (AddEndpoints_calls st sid epss) = None)"
proof (cases "EndpointTable unit")
  case None
  with assms have "fst (AddEndpoints_calls st sid epss) = st"
    by (rule AddEndpoints_calls_nil)
  with assms None show ?thesis by (simp add: mapIndex_def)
next
  case (Some tbl)
  from AddEndpoints_calls_table[of st sid unit tbl epss] assms Some show ?thesis
    by (simp add: mapIndex_def firstWrite_def)
qed

theorem AddEndpoints_first_write_wins_witness:
  "CreateServiceUnit Map.empty ''svc1'' ''svc1'' =
     Some \<lparr>Name = ''svc1'', EndpointTable = Some Map.empty,
           ServiceAliasConfigs = Some Map.empty\<rparr> \<and>
   (\<exists>unit'. fst (AddEndpoints_calls (CreateServiceUnit Map.empty ''svc1'') ''svc1''
                   [[ep1, ep2], [ep1_again]]) ''svc1'' = Some unit' \<and>
      mapIndex (EndpointTable unit') ''e1'' = Some ep1 \<and>
      mapIndex (EndpointTable unit') ''e2'' = Some ep2)"
proof -
  have h: "CreateServiceUnit Map.empty ''svc1'' ''svc1'' =
     Some \<lparr>Name = ''svc1'', EndpointTable = Some Map.empty,
           ServiceAliasConfigs = Some Map.empty\<rparr>"
    by (simp add: CreateServiceUnit_def)
  from AddEndpoints_first_write_wins[of "CreateServiceUnit Map.empty ''svc1''" "''svc1''" _
      "[[ep1, ep2], [ep1_again]]", OF h]
  obtain unit' where
    u: "fst (AddEndpoints_calls (CreateServiceUnit Map.empty ''svc1'') ''svc1''
               [[ep1, ep2], [ep1_again]]) ''svc1'' = Some unit'" and
    k: "\<forall>k. mapIndex (EndpointTable unit') k =
              (case Map.empty k of Some e \<Rightarrow> Some e
               | None \<Rightarrow> find (\<lambda>ep. ID_ep ep = k) (concat [[ep1, ep2], [ep1_again]]))"
    by auto
  from k have "mapIndex (EndpointTable unit') ''e1'' = Some ep1"
    by (simp add: ep1_def)
  moreover from k have "mapIndex (EndpointTable unit') ''e2'' = Some ep2"
    by (simp add: ep1_def ep2_def)
  ultimately show ?thesis using h u by blast
qed

text \<open>
  Claim C10. \<^verbatim>\<open>AddEndpoints\<close> for an id that the state does not have is not safe.
  \<^verbatim>\<open>FindServiceUnit\<close> returns the zero unit, whose endpoint table is nil. With a non-empty
  list of endpoints the first assignment goes into the nil map and panics, the state
  untouched; with the empty list the zero unit, with empty name and nil tables, is stored
  in the state under the id.
\<close>

theorem AddEndpoints_absent_unit:
  "st sid = None \<Longrightarrow>
     FindServiceUnit st sid = (zeroServiceUnit, False) \<and>
     EndpointTable zeroServiceUnit = None \<and>
     (endpoints \<noteq> [] \<longrightarrow> AddEndpoints st sid endpoints = (st, Some AssignmentToEntryInNilMap)) \<and>
     AddEndpoints st sid [] =
       (st(sid \<mapsto> \<lparr>Name = '''', EndpointTable = None, ServiceAliasConfigs = None\<rparr>), None)"
  by (cases endpoints)
     (simp_all add: AddEndpoints_def FindServiceUnit_def zeroServiceUnit_def mapAssign_def
      mapIndex_def Let_def)

theorem AddEndpoints_absent_unit_witness:
  "(Map.empty :: RouterState) ''svc1'' = None \<and>
   AddEndpoints Map.empty ''svc1'' [ep1] = (Map.empty, Some AssignmentToEntryInNilMap) \<and>
   AddEndpoints Map.empty ''svc1'' [] =
     ([''svc1'' \<mapsto> \<lparr>Name = '''', EndpointTable = None, ServiceAliasConfigs = None\<rparr>], None)"
  using AddEndpoints_absent_unit[of Map.empty "''svc1''" "[ep1]"] by simp

section \<open>Reading the persisted state\<close>

text \<open>
  Claim C6, as the code has it. \<^verbatim>\<open>readState\<close> turns every failure to read the file of
  the persisted state into the empty state with no error, whatever the failure is: the
  code does not ask whether the file is absent. When the file was read, the state and the
  error are the ones \<^verbatim>\<open>json.Unmarshal\<close> returns, so a failure to parse reaches the caller.
\<close>

theorem readState_errors:
  "(ioutilReadFile env (calls s) routeFile = Inl e \<longrightarrow>
      fst (readState env r s) = (None, r\<lparr>state := Map.empty\<rparr>)) \<and>
   (ioutilReadFile env (calls s) routeFile = Inr dat \<longrightarrow>
      fst (readState env r s) =
        (snd (jsonUnmarshal env dat (state r)), r\<lparr>state := fst (jsonUnmarshal env dat (state r))\<rparr>)) \<and>
   (ioutilReadFile env (calls s) routeFile = Inr dat \<and>
    snd (jsonUnmarshal env dat (state r)) = Some err \<longrightarrow>
      fst (fst (readState env r s)) = Some err)"
  by (simp add: readState_def split: prod.split)

theorem readState_errors_witness:
  "ioutilReadFile env_read_absent (calls io_empty) routeFile = Inl ErrNotExist \<and>
   fst (readState env_read_absent router_ex io_empty) = (None, router_ex\<lparr>state := Map.empty\<rparr>) \<and>
   ioutilReadFile env_parse_fails (calls io_empty) routeFile = Inr ''{'' \<and>
   snd (jsonUnmarshal env_parse_fails ''{'' (state router_ex)) =
     Some (ErrSyntax ''unexpected end of JSON input'') \<and>
   fst (fst (readState env_parse_fails router_ex io_empty)) =
     Some (ErrSyntax ''unexpected end of JSON input'')"
proof -
  have a: "ioutilReadFile env_read_absent (calls io_empty) routeFile = Inl ErrNotExist"
    by (simp add: env_read_absent_def env_ok_def)
  have b: "ioutilReadFile env_parse_fails (calls io_empty) routeFile = Inr ''{''"
    by (simp add: env_parse_fails_def env_ok_def)
  have c: "snd (jsonUnmarshal env_parse_fails ''{'' (state router_ex)) =
     Some (ErrSyntax ''unexpected end of JSON input'')"
    by (simp add: env_parse_fails_def env_ok_def)
  from readState_errors[of env_read_absent io_empty ErrNotExist router_ex] a
  have d: "fst (readState env_read_absent router_ex io_empty) = (None, router_ex\<lparr>state := Map.empty\<rparr>)"
    by blast
  from readState_errors[of env_parse_fails io_empty _ router_ex "''{''"
      "ErrSyntax ''unexpected end of JSON input''"] b c
  have e: "fst (fst (readState env_parse_fails router_ex io_empty)) =
     Some (ErrSyntax ''unexpected end of JSON input'')"
    by blast
  from a b c d e show ?thesis by blast
qed

theorem readState_denied_counterexample:
  "ioutilReadFile env_read_denied (calls io_empty) routeFile = Inl ErrPermission \<and>
   ErrPermission \<noteq> ErrNotExist \<and>
   fst (readState env_read_denied router_ex io_empty) = (None, router_ex\<lparr>state := Map.empty\<rparr>)"
  by (simp add: readState_def env_read_denied_def env_ok_def)

section \<open>Commit runs a plan and stops at the first failure\<close>

lemma failfast_append:
  "failfast run (xs @ ys) s =
     (case failfast run xs s of (Some err, s') \<Rightarrow> (Some err, s') | (None, s') \<Rightarrow> failfast run ys s')"
  by (induction xs arbitrary: s) (auto split: prod.split option.split)

lemma failfast_map: "failfast run (map g xs) s = failfast (\<lambda>x. run (g x)) xs s"
  by (induction xs arbitrary: s) (auto split: prod.split option.split)

lemma writeConfig_aliases_failfast:
  "writeConfig_aliases env r u cfgs s = failfast (\<lambda>cfg. Commit_step env r (StepCerts u cfg)) cfgs s"
proof (induction cfgs arbitrary: s)
  case Nil
  then show ?case by simp
next
  case (Cons cfg cfgs)
  show ?case
    by (simp add: Commit_step_def Cons.IH split: prod.split option.split)
qed

lemma writeConfig_units_failfast:
  "writeConfig_units env r units s =
     failfast (Commit_step env r)
       (concat (map (\<lambda>u. map (StepCerts u)
                  (rangeValues (rangeAliases env u) (ServiceAliasConfigs u))) units)) s"
proof (induction units arbitrary: s)
  case Nil
  then show ?case by simp
next
  case (Cons u units)
  show ?case
    by (simp add: failfast_append failfast_map writeConfig_aliases_failfast Cons.IH
        split: prod.split option.split)
qed

lemma writeConfig_templates_failfast:
  "writeConfig_templates env r pts s =
     failfast (Commit_step env r) (map (\<lambda>(path, template). StepRender path template) pts) s"
proof (induction pts arbitrary: s)
  case Nil
  then show ?case by simp
next
  case (Cons pt pts)
  obtain path template where pt: "pt = (path, template)" by (cases pt)
  show ?case
    unfolding pt
    by (simp add: Commit_step_def Cons.IH Let_def split: prod.split option.split)
qed

lemma writeConfig_failfast:
  "writeConfig env r s = failfast (Commit_step env r) (certSteps env r @ renderSteps env r) s"
  by (simp add: writeConfig_def certSteps_def renderSteps_def failfast_append
      writeConfig_units_failfast writeConfig_templates_failfast split: prod.split option.split)


lemma calls_logf: "calls (logf s sev fmt args) = calls s"
  by (simp add: logf_def)

lemma calls_called: "calls (called s c) = calls s @ [c]"
  by (simp add: called_def)




lemma shouldWriteCerts_calls: "calls (snd (shouldWriteCerts r cfg s)) = calls s"
  by (simp add: shouldWriteCerts_def Let_def calls_logf)

lemma shouldWriteCerts_certsWanted: "fst (shouldWriteCerts r cfg s) = certsWanted r cfg"
  by (simp add: certsWanted_def shouldWriteCerts_def Let_def)

lemma writeCertificates_calls:
  "calls (snd (writeCertificates env r cfg s)) =
     calls s @ (if certsWanted r cfg then [WriteCertificatesForConfig cfg] else [])"
proof -
  obtain b s' where sw: "shouldWriteCerts r cfg s = (b, s')" by (cases "shouldWriteCerts r cfg s")
  with shouldWriteCerts_calls[of r cfg s] shouldWriteCerts_certsWanted[of r cfg s]
  have "calls s' = calls s" and "b = certsWanted r cfg" by simp_all
  with sw show ?thesis by (simp add: writeCertificates_def calls_called)
qed

lemma Commit_step_calls_ok:
  "Commit_step env r x s = (None, s') \<Longrightarrow> calls s' = calls s @ stepCalls env r x"
proof (cases x)
  case StepPersist
  assume "Commit_step env r x s = (None, s')"
  with StepPersist show ?thesis
    by (auto simp: Commit_step_def stepCalls_def writeState_def calls_called
        split: sum.splits option.splits)
next
  case (StepCerts u cfg)
  assume a: "Commit_step env r x s = (None, s')"
  obtain res s1 where w: "writeCertificates env r cfg s = (res, s1)"
    by (cases "writeCertificates env r cfg s")
  with writeCertificates_calls[of env r cfg s]
  have "calls s1 = calls s @ (if certsWanted r cfg then [WriteCertificatesForConfig cfg] else [])"
    by simp
  with a w StepCerts show ?thesis
    by (auto simp: Commit_step_def stepCalls_def split: option.splits)
next
  case (StepRender path template)
  assume "Commit_step env r x s = (None, s')"
  with StepRender show ?thesis
    by (auto simp: Commit_step_def stepCalls_def Let_def calls_called split: option.splits)
next
  case StepReload
  assume "Commit_step env r x s = (None, s')"
  with StepReload show ?thesis
    by (auto simp: Commit_step_def stepCalls_def reloadRouter_def Let_def calls_called
        split: option.splits prod.splits)
qed

lemma failfast_calls_ok:
  "failfast (Commit_step env r) xs s = (None, s') \<Longrightarrow>
   calls s' = calls s @ concat (map (stepCalls env r) xs)"
proof (induction xs arbitrary: s)
  case Nil
  then show ?case by simp
next
  case (Cons x xs)
  obtain res s1 where st: "Commit_step env r x s = (res, s1)"
    by (cases "Commit_step env r x s")
  with Cons.prems have res: "res = None" and rest: "failfast (Commit_step env r) xs s1 = (None, s')"
    by (auto split: option.splits)
  from st res have "calls s1 = calls s @ stepCalls env r x"
    by (simp add: Commit_step_calls_ok)
  with Cons.IH[OF rest] show ?case by simp
qed





lemma in_set_map_filter:
  "y \<in> set (List.map_filter f xs) \<longleftrightarrow> (\<exists>x \<in> set xs. f x = Some y)"
  by (induction xs) (auto split: option.splits)



lemma enumerates_rangeEntries:
  "enumerates ks m \<Longrightarrow> m k = Some v \<Longrightarrow> (k, v) \<in> set (rangeEntries ks m)"
  unfolding enumerates_def rangeEntries_def in_set_map_filter
  by (metis domI option.simps(9))


lemma renderSteps_cover:
  assumes "rangeOK env r" and "templates r path = Some t"
  shows "StepRender path t \<in> set (renderSteps env r)"
proof -
  from assms have "(path, t) \<in> set (rangeEntries (rangeTemplates env (templates r)) (templates r))"
    by (auto simp: rangeOK_def intro: enumerates_rangeEntries)
  then show ?thesis by (force simp: renderSteps_def)
qed


section \<open>The router of the examples\<close>

lemma AddRoute_config_route_ex: "AddRoute_config route_ex = cfg_ex"
  by (simp add: AddRoute_config_def route_ex_def cfg_ex_def Let_def TLSTerminationPassthrough_def)

lemma routeKey_route_ex: "routeKey route_ex = ''ns-web''"
  by (simp add: routeKey_def route_ex_def)

lemma state_router_ex: "state router_ex = [''svc1'' \<mapsto> unit_ex]"
  by (simp add: router_ex_def AddRoute_def FindServiceUnit_def CreateServiceUnit_def
      mapAssign_def Let_def AddRoute_config_route_ex unit_ex_def routeKey_route_ex)

lemma router_ex_fields:
  "templates router_ex = [''/etc/haproxy.cfg'' \<mapsto> ''haproxy template'']"
  "reloadScriptPath router_ex = ''/usr/bin/reload''"
  "defaultCertificate router_ex = ''''"
  "defaultCertificatePath router_ex = ''''"
  by (simp_all add: router_ex_def)

lemma shouldWriteCerts_cfg_ex: "shouldWriteCerts router_ex cfg_ex s = (True, s)"
  by (simp add: shouldWriteCerts_def hasRequiredEdgeCerts_def mapIndex_def
      cfg_ex_def TLSTerminationEdge_def)

lemma env_ok_ranges:
  "rangeState env_ok st = [''svc1'']"
  "rangeAliases env_ok u = [''ns-web'']"
  "rangeTemplates env_ok ts = [''/etc/haproxy.cfg'']"
  by (simp_all add: env_ok_def)



lemma rangeOK_ex:
  "rangeState env = rangeState env_ok \<Longrightarrow> rangeAliases env = rangeAliases env_ok \<Longrightarrow>
   rangeTemplates env = rangeTemplates env_ok \<Longrightarrow> rangeOK env router_ex"
  by (auto simp: rangeOK_def enumerates_def state_router_ex router_ex_fields env_ok_ranges
      unit_ex_def split: if_splits)



lemma reload_env_fields:
  "rangeState (env_reload_fails out) = rangeState env_ok"
  "rangeAliases (env_reload_fails out) = rangeAliases env_ok"
  "rangeTemplates (env_reload_fails out) = rangeTemplates env_ok"
  "cmdCombinedOutput (env_reload_fails out) h p = (out, Some (ExitError 1))"
  by (simp_all add: env_reload_fails_def)


lemma writeState_ok:
  "writeState env r s = (None, s1) \<Longrightarrow>
   \<exists>dat. jsonMarshalIndent env (state r) = Inr dat \<and> s1 = called s (WriteFile routeFile dat)"
  by (auto simp: writeState_def split: sum.splits option.splits)


section \<open>Order and failure of Commit\<close>















section \<open>A failing reload\<close>

text \<open>
  Claim C7, as the code has it. Take a \<^verbatim>\<open>Commit\<close> in which persisting and
  \<^verbatim>\<open>writeConfig\<close> went through and the reload script fails with output \<open>out\<close> and error
  \<open>e\<close>. \<^verbatim>\<open>Commit\<close> returns \<open>e\<close> as it came from the run of the script; the output is
  written to the error log next to \<open>e\<close> and is not part of what is returned. The calls
  made are, in this order, the write of the state file, the certificate writes, for every
  template its create, execute and close, and last the run of the reload script: the
  state file and every rendered file were written before the reload ran, and nothing is
  undone after it.
\<close>

theorem Commit_reload_fails:
  assumes "s0 = logf s INFO_V4 ''Commiting router changes'' []"
    and "writeState env r s0 = (None, s1)"
    and "writeConfig env r s1 = (None, s2)"
    and "cmdCombinedOutput env (calls s2) (reloadScriptPath r) = (out, Some e)"
  shows
   "Commit env r s =
      (Some e, logf (called s2 (CombinedOutput (reloadScriptPath r))) ERROR
                 (''Error reloading router: %v'' @ [CHR 0x0A] @ '' Reload output: %v'')
                 [Err e, Str out]) \<and>
    (\<exists>dat. jsonMarshalIndent env (state r) = Inr dat \<and>
       calls (snd (Commit env r s)) =
         calls s @ [WriteFile routeFile dat]
           @ concat (map (stepCalls env r) (certSteps env r))
           @ concat (map (stepCalls env r) (renderSteps env r))
           @ [CombinedOutput (reloadScriptPath r)]) \<and>
    (rangeOK env r \<and> templates r path = Some template \<longrightarrow>
       StepRender path template \<in> set (renderSteps env r) \<and>
       stepCalls env r (StepRender path template) =
         [Create path,
          Execute template path \<lparr>State = state r, DefaultCertificate = defaultCertificatePath r\<rparr>,
          Close path])"
proof -
  have res: "Commit env r s =
      (Some e, logf (called s2 (CombinedOutput (reloadScriptPath r))) ERROR
                 (''Error reloading router: %v'' @ [CHR 0x0A] @ '' Reload output: %v'')
                 [Err e, Str out])"
    using assms by (simp add: Commit_def reloadRouter_def Let_def)
  from writeState_ok[OF assms(2)] obtain dat where
    dat: "jsonMarshalIndent env (state r) = Inr dat" and s1: "s1 = called s0 (WriteFile routeFile dat)"
    by blast
  have c1: "calls s1 = calls s @ [WriteFile routeFile dat]"
    by (simp add: s1 assms(1) calls_called calls_logf)
  from assms(3) have "failfast (Commit_step env r) (certSteps env r @ renderSteps env r) s1 = (None, s2)"
    by (simp add: writeConfig_failfast)
  then have c2: "calls s2 = calls s1 @ concat (map (stepCalls env r) (certSteps env r @ renderSteps env r))"
    by (rule failfast_calls_ok)
  have tr: "calls (snd (Commit env r s)) =
         calls s @ [WriteFile routeFile dat]
           @ concat (map (stepCalls env r) (certSteps env r))
           @ concat (map (stepCalls env r) (renderSteps env r))
           @ [CombinedOutput (reloadScriptPath r)]"
    by (simp add: res calls_logf calls_called c2 c1)
  have cov: "rangeOK env r \<and> templates r path = Some template \<longrightarrow>
       StepRender path template \<in> set (renderSteps env r) \<and>
       stepCalls env r (StepRender path template) =
         [Create path,
          Execute template path \<lparr>State = state r, DefaultCertificate = defaultCertificatePath r\<rparr>,
          Close path]"
    by (auto intro: renderSteps_cover simp: stepCalls_def)
  from res dat tr cov show ?thesis by blast
qed


theorem Commit_reload_fails_witness:
  "fst (Commit (env_reload_fails ''haproxy: bad config'') router_ex io_empty) = Some (ExitError 1) \<and>
   glog (snd (Commit (env_reload_fails ''haproxy: bad config'') router_ex io_empty)) =
     [Log INFO_V4 ''Commiting router changes'' [],
      Log ERROR (''Error reloading router: %v'' @ [CHR 0x0A] @ '' Reload output: %v'')
        [Err (ExitError 1), Str ''haproxy: bad config'']] \<and>
   calls (snd (Commit (env_reload_fails ''haproxy: bad config'') router_ex io_empty)) =
     [WriteFile routeFile ''{...}'', WriteCertificatesForConfig cfg_ex,
      Create ''/etc/haproxy.cfg'',
      Execute ''haproxy template'' ''/etc/haproxy.cfg''
        \<lparr>State = [''svc1'' \<mapsto> unit_ex], DefaultCertificate = ''''\<rparr>,
      Close ''/etc/haproxy.cfg'',
      CombinedOutput ''/usr/bin/reload''] \<and>
   rangeOK (env_reload_fails ''haproxy: bad config'') router_ex \<and>
   templates router_ex ''/etc/haproxy.cfg'' = Some ''haproxy template'' \<and>
   StepRender ''/etc/haproxy.cfg'' ''haproxy template''
     \<in> set (renderSteps (env_reload_fails ''haproxy: bad config'') router_ex)"
proof -
  let ?env = "env_reload_fails ''haproxy: bad config''"
  let ?s0 = "logf io_empty INFO_V4 ''Commiting router changes'' []"
  let ?s1 = "called ?s0 (WriteFile routeFile ''{...}'')"
  let ?s2 = "called (called (called (called ?s1 (WriteCertificatesForConfig cfg_ex))
               (Create ''/etc/haproxy.cfg''))
               (Execute ''haproxy template'' ''/etc/haproxy.cfg''
                  \<lparr>State = [''svc1'' \<mapsto> unit_ex], DefaultCertificate = ''''\<rparr>))
               (Close ''/etc/haproxy.cfg'')"
  have h1: "writeState ?env router_ex ?s0 = (None, ?s1)"
    by (simp add: writeState_def env_reload_fails_def env_ok_def calls_logf)
  have h2: "writeConfig ?env router_ex ?s1 = (None, ?s2)"
    by (simp add: writeConfig_def writeCertificates_def shouldWriteCerts_cfg_ex state_router_ex
        router_ex_fields env_reload_fails_def env_ok_def Let_def rangeValues_def rangeEntries_def
        mapIndex_def unit_ex_def)
  have h3: "cmdCombinedOutput ?env (calls ?s2) (reloadScriptPath router_ex) =
              (''haproxy: bad config'', Some (ExitError 1))"
    by (simp add: reload_env_fields)
  have h4: "rangeOK ?env router_ex"
    by (simp add: rangeOK_ex reload_env_fields)
  have h5: "templates router_ex ''/etc/haproxy.cfg'' = Some ''haproxy template''"
    by (simp add: router_ex_fields)
  note run = Commit_reload_fails[OF refl h1 h2 h3, where path = "''/etc/haproxy.cfg''"
      and template = "''haproxy template''"]
  from run have "Commit ?env router_ex io_empty =
      (Some (ExitError 1), logf (called ?s2 (CombinedOutput (reloadScriptPath router_ex))) ERROR
                 (''Error reloading router: %v'' @ [CHR 0x0A] @ '' Reload output: %v'')
                 [Err (ExitError 1), Str ''haproxy: bad config''])"
    by blast
  then have r: "fst (Commit ?env router_ex io_empty) = Some (ExitError 1) \<and>
     glog (snd (Commit ?env router_ex io_empty)) =
       [Log INFO_V4 ''Commiting router changes'' [],
        Log ERROR (''Error reloading router: %v'' @ [CHR 0x0A] @ '' Reload output: %v'')
          [Err (ExitError 1), Str ''haproxy: bad config'']] \<and>
     calls (snd (Commit ?env router_ex io_empty)) =
       [WriteFile routeFile ''{...}'', WriteCertificatesForConfig cfg_ex,
        Create ''/etc/haproxy.cfg'',
        Execute ''haproxy template'' ''/etc/haproxy.cfg''
          \<lparr>State = [''svc1'' \<mapsto> unit_ex], DefaultCertificate = ''''\<rparr>,
        Close ''/etc/haproxy.cfg'',
        CombinedOutput ''/usr/bin/reload'']"
    by (simp add: logf_def called_def io_empty_def router_ex_fields)
  from run h4 h5
  have "StepRender ''/etc/haproxy.cfg'' ''haproxy template'' \<in> set (renderSteps ?env router_ex)"
    by blast
  with r h4 h5 show ?thesis by blast
qed

theorem Commit_reload_output_counterexample:
  "cmdCombinedOutput (env_reload_fails ''first output'') [] ''/usr/bin/reload'' =
     (''first output'', Some (ExitError 1)) \<and>
   cmdCombinedOutput (env_reload_fails ''second output'') [] ''/usr/bin/reload'' =
     (''second output'', Some (ExitError 1)) \<and>
   fst (Commit (env_reload_fails ''first output'') router_ex io_empty) = Some (ExitError 1) \<and>
   fst (Commit (env_reload_fails ''second output'') router_ex io_empty) = Some (ExitError 1) \<and>
   ''first output'' \<noteq> ''second output''"
  by (simp add: Commit_def writeState_def writeConfig_def reloadRouter_def writeCertificates_def
      shouldWriteCerts_cfg_ex state_router_ex router_ex_fields env_reload_fails_def env_ok_def
      io_empty_def logf_def called_def Let_def rangeValues_def rangeEntries_def mapIndex_def
      unit_ex_def)

end
